theory Spec2Isabelle
  imports Complex_Main "HOL-Library.Sublist"
begin

section \<open>The wheel catalog browser (app.js)\<close>

text \<open>
  The script keeps three module-level variables (the selected version family, the four
  facet filters and the search text), derives the visible part of a static catalog from
  them and writes the outcome into the page. The model passes that state explicitly: a
  record for the variables, extended by the page elements the script writes to. Strings
  are \<open>char list\<close>; the characters of the model are the ASCII part of the script's
  strings.
\<close>

subsection \<open>Data\<close>

text \<open>
  A catalog entry, as the script reads it: \<open>w.v\<close>, \<open>w.cuda\<close>, \<open>w.py\<close>, \<open>w.torch\<close>,
  \<open>w.os\<close>, \<open>w.url\<close>, \<open>w.size\<close>. The field names carry the prefix \<open>w_\<close>, since
  a record field is a constant of the theory.
\<close>

record wheel =
  w_v :: string
  w_cuda :: string
  w_py :: string
  w_torch :: string
  w_os :: string
  w_url :: string
  w_size :: string

text \<open>
  The two arrays \<open>flashAttn2\<close> and \<open>flashAttn3\<close> are globals that another script of
  the page supplies; they are a parameter of every function that reads them.
\<close>

record catalog =
  flashAttn2 :: "wheel list"
  flashAttn3 :: "wheel list"

text \<open>The object \<open>filters = { cuda, python, pytorch, platform }\<close>.\<close>

record filters =
  f_cuda :: string
  f_python :: string
  f_pytorch :: string
  f_platform :: string

text \<open>The variables \<open>currentVersion\<close>, \<open>filters\<close> and \<open>searchQuery\<close>.\<close>

record state =
  currentVersion :: string
  filters :: filters
  searchQuery :: string

text \<open>The keys of an entry that \<open>w[key]\<close> can read.\<close>

datatype wkey = Kv | Kcuda | Kpy | Ktorch | Kos | Kurl | Ksize

fun get_field :: "wkey \<Rightarrow> wheel \<Rightarrow> string" where
  "get_field Kv w = w_v w"
| "get_field Kcuda w = w_cuda w"
| "get_field Kpy w = w_py w"
| "get_field Ktorch w = w_torch w"
| "get_field Kos w = w_os w"
| "get_field Kurl w = w_url w"
| "get_field Ksize w = w_size w"

subsection \<open>String operations of the language\<close>

text \<open>
  \<open>s.includes(q)\<close>: \<open>q\<close> occurs in \<open>s\<close> as a contiguous run of characters; the empty
  string occurs in every string.
\<close>

fun str_includes :: "string \<Rightarrow> string \<Rightarrow> bool" where
  "str_includes [] q = (q = [])"
| "str_includes (x # xs) q = (prefix q (x # xs) \<or> str_includes xs q)"

text \<open>\<open>s.startsWith(p)\<close>.\<close>

definition startsWith :: "string \<Rightarrow> string \<Rightarrow> bool" where
  "startsWith s p = prefix p s"

text \<open>
  \<open>s.toLowerCase()\<close> on ASCII: the letters A to Z (codes 65 to 90) move to a to z, every
  other character stays.
\<close>

definition lower_char :: "char \<Rightarrow> char" where
  "lower_char ch = (let n = (of_char ch :: nat) in if 65 \<le> n \<and> n \<le> 90 then char_of (n + 32) else ch)"

definition toLowerCase :: "string \<Rightarrow> string" where
  "toLowerCase s = map lower_char s"

subsection \<open>getWheels and filterWheels\<close>

text \<open>
  \<^verbatim>\<open>
  function getWheels() {
    if (currentVersion === '2') return flashAttn2;
    if (currentVersion === '3') return flashAttn3;
    return [...flashAttn2, ...flashAttn3];
  }
  \<close>
\<close>

definition getWheels :: "catalog \<Rightarrow> 'a state_scheme \<Rightarrow> wheel list" where
  "getWheels c s =
     (if currentVersion s = ''2'' then flashAttn2 c
      else if currentVersion s = ''3'' then flashAttn3 c
      else flashAttn2 c @ flashAttn3 c)"

text \<open>
  The disjunction that \<open>filterWheels\<close> returns when there is a search text, with \<open>q\<close> the
  lowercased text: only \<open>w.os\<close> is lowercased before the test.
  \<^verbatim>\<open>
  w.v.includes(q) || w.cuda.includes(q) || w.py.includes(q) ||
  w.torch.includes(q) || w.os.toLowerCase().includes(q)
  \<close>
\<close>

definition search_hit :: "string \<Rightarrow> wheel \<Rightarrow> bool" where
  "search_hit q w =
     (str_includes (w_v w) q \<or> str_includes (w_cuda w) q \<or> str_includes (w_py w) q \<or>
      str_includes (w_torch w) q \<or> str_includes (toLowerCase (w_os w)) q)"

text \<open>
  The callback of \<open>filterWheels\<close>, statement by statement. A string is truthy when it is
  not empty.
  \<^verbatim>\<open>
  w => {
    if (filters.cuda !== 'all' && w.cuda !== filters.cuda) return false;
    if (filters.python !== 'all' && w.py !== filters.python) return false;
    if (filters.pytorch !== 'all' && w.torch !== filters.pytorch) return false;
    if (filters.platform !== 'all' && w.os !== filters.platform) return false;
    if (searchQuery) {
      const q = searchQuery.toLowerCase();
      return w.v.includes(q) || ... ;
    }
    return true;
  }
  \<close>
\<close>

definition keep_wheel :: "'a state_scheme \<Rightarrow> wheel \<Rightarrow> bool" where
  "keep_wheel s w =
     (if f_cuda (filters s) \<noteq> ''all'' \<and> w_cuda w \<noteq> f_cuda (filters s) then False
      else if f_python (filters s) \<noteq> ''all'' \<and> w_py w \<noteq> f_python (filters s) then False
      else if f_pytorch (filters s) \<noteq> ''all'' \<and> w_torch w \<noteq> f_pytorch (filters s) then False
      else if f_platform (filters s) \<noteq> ''all'' \<and> w_os w \<noteq> f_platform (filters s) then False
      else if searchQuery s \<noteq> [] then search_hit (toLowerCase (searchQuery s)) w
      else True)"

text \<open>\<open>filterWheels\<close>: \<open>getWheels().filter(...)\<close>, which keeps the order of the array.\<close>

definition filterWheels :: "catalog \<Rightarrow> 'a state_scheme \<Rightarrow> wheel list" where
  "filterWheels c s = filter (keep_wheel s) (getWheels c s)"

subsection \<open>Numbers, parseFloat and Array.prototype.sort\<close>

text \<open>
  The values \<open>parseFloat\<close> can return: not-a-number, the two infinities, and a finite
  number, given by its exact value (every finite double is a rational).
\<close>

datatype jsnum = NaN | NegInf | Fin rat | PosInf

text \<open>
  \<open>a - b\<close>. An operand that is not a number gives not-a-number, and so does the difference
  of equal infinities. The difference of two finite doubles is rounded by the machine, which
  changes neither its sign nor whether it is zero; the model keeps the exact difference.
\<close>

fun js_sub :: "jsnum \<Rightarrow> jsnum \<Rightarrow> jsnum" where
  "js_sub NaN b = NaN"
| "js_sub a NaN = NaN"
| "js_sub PosInf PosInf = NaN"
| "js_sub NegInf NegInf = NaN"
| "js_sub PosInf b = PosInf"
| "js_sub NegInf b = NegInf"
| "js_sub (Fin x) PosInf = NegInf"
| "js_sub (Fin x) NegInf = PosInf"
| "js_sub (Fin x) (Fin y) = Fin (x - y)"

text \<open>
  How \<open>sort\<close> reads the number its comparison function returns: negative, zero or
  positive, a not-a-number counting as zero.
\<close>

fun sort_sign :: "jsnum \<Rightarrow> int" where
  "sort_sign NaN = 0"
| "sort_sign NegInf = - 1"
| "sort_sign PosInf = 1"
| "sort_sign (Fin x) = (if x < 0 then - 1 else if 0 < x then 1 else 0)"

text \<open>\<open>a >= b\<close> on numbers: false as soon as one side is not a number.\<close>

fun js_ge :: "jsnum \<Rightarrow> jsnum \<Rightarrow> bool" where
  "js_ge NaN b = False"
| "js_ge a NaN = False"
| "js_ge PosInf b = True"
| "js_ge a NegInf = True"
| "js_ge NegInf b = False"
| "js_ge (Fin x) PosInf = False"
| "js_ge (Fin x) (Fin y) = (y \<le> x)"

text \<open>
  \<open>xs.sort(cmp)\<close>. For a comparison function that orders the elements consistently the
  language fixes the outcome: the elements in ascending order of \<open>cmp\<close>, elements that
  compare equal in their former order. Insertion from the right end computes it: \<open>x\<close>,
  which stood before every element of the list it is inserted into, goes in front of the
  first \<open>y\<close> that must not precede it. (For an inconsistent comparison function the
  language leaves the order to the engine; the model then gives the order of this
  insertion, one of the permitted outcomes.)
\<close>

fun insert_by :: "('a \<Rightarrow> 'a \<Rightarrow> int) \<Rightarrow> 'a \<Rightarrow> 'a list \<Rightarrow> 'a list" where
  "insert_by cmp x [] = [x]"
| "insert_by cmp x (y # ys) = (if cmp x y \<le> 0 then x # y # ys else y # insert_by cmp x ys)"

definition array_sort :: "('a \<Rightarrow> 'a \<Rightarrow> int) \<Rightarrow> 'a list \<Rightarrow> 'a list" where
  "array_sort cmp xs = foldr (insert_by cmp) xs []"

text \<open>
  \<open>[...new Set(xs)]\<close>: a set keeps its elements in the order of their first insertion.
\<close>

definition set_add :: "'a list \<Rightarrow> 'a \<Rightarrow> 'a list" where
  "set_add seen x = (if x \<in> set seen then seen else seen @ [x])"

definition new_Set :: "'a list \<Rightarrow> 'a list" where
  "new_Set xs = foldl set_add [] xs"

text \<open>
  \<open>parseFloat\<close> is a function of the language, not of the script, so \<open>getUnique\<close> takes
  it as the parameter \<open>pf\<close>.
  \<^verbatim>\<open>
  function getUnique(key) {
    const wheels = getWheels();
    const values = [...new Set(wheels.map(w => w[key]))];
    return values.sort((a, b) => parseFloat(b) - parseFloat(a));
  }
  \<close>
\<close>

definition getUnique_cmp :: "(string \<Rightarrow> jsnum) \<Rightarrow> string \<Rightarrow> string \<Rightarrow> int" where
  "getUnique_cmp pf a b = sort_sign (js_sub (pf b) (pf a))"

definition getUnique :: "(string \<Rightarrow> jsnum) \<Rightarrow> catalog \<Rightarrow> 'a state_scheme \<Rightarrow> wkey \<Rightarrow> string list" where
  "getUnique pf c s key =
     (let wheels = getWheels c s;
          vals = new_Set (map (get_field key) wheels)
      in array_sort (getUnique_cmp pf) vals)"

text \<open>
  A model of \<open>parseFloat\<close> on ASCII strings, used where a concrete parse is needed: skip
  leading white space, read the longest prefix that is a decimal literal (a sign, then
  \<open>Infinity\<close>, or digits with an optional fraction, or a fraction alone, then an optional
  exponent), and give not-a-number when there is none. The finite result is the exact
  value of the literal. The language rounds it to the nearest double (and to an infinity
  beyond the range of doubles), which keeps the order of two values and, for literals of
  at most 15 significant digits within that range, also keeps distinct values distinct;
  on such literals the comparisons of the model are those of the language.
\<close>

definition is_space :: "char \<Rightarrow> bool" where
  "is_space ch = (let n = (of_char ch :: nat) in n = 32 \<or> (9 \<le> n \<and> n \<le> 13))"

definition is_digit :: "char \<Rightarrow> bool" where
  "is_digit ch = (let n = (of_char ch :: nat) in 48 \<le> n \<and> n \<le> 57)"

definition digits_val :: "string \<Rightarrow> nat" where
  "digits_val ds = foldl (\<lambda>n ch. 10 * n + ((of_char ch :: nat) - 48)) 0 ds"

definition exponent_of :: "string \<Rightarrow> int" where
  "exponent_of r =
     (case r of
        [] \<Rightarrow> 0
      | e # r1 \<Rightarrow>
          if e = CHR ''e'' \<or> e = CHR ''E'' then
            (case r1 of
               [] \<Rightarrow> 0
             | sg # r2 \<Rightarrow>
                 if sg = CHR ''-'' then - int (digits_val (takeWhile is_digit r2))
                 else if sg = CHR ''+'' then int (digits_val (takeWhile is_digit r2))
                 else int (digits_val (takeWhile is_digit r1)))
          else 0)"

definition scale10 :: "rat \<Rightarrow> int \<Rightarrow> rat" where
  "scale10 x e = (if 0 \<le> e then x * 10 ^ nat e else x / 10 ^ nat (- e))"

definition parseFloat :: "string \<Rightarrow> jsnum" where
  "parseFloat str =
     (let t = dropWhile is_space str;
          neg = (case t of [] \<Rightarrow> False | ch # _ \<Rightarrow> ch = CHR ''-'');
          u = (case t of [] \<Rightarrow> [] | ch # r \<Rightarrow> if ch = CHR ''-'' \<or> ch = CHR ''+'' then r else t);
          ip = takeWhile is_digit u;
          r1 = dropWhile is_digit u;
          dot = (case r1 of [] \<Rightarrow> False | ch # _ \<Rightarrow> ch = CHR ''.'');
          fp = (if dot then takeWhile is_digit (tl r1) else []);
          r2 = (if dot then dropWhile is_digit (tl r1) else r1);
          mv = scale10 (of_nat (digits_val ip) + of_nat (digits_val fp) / 10 ^ length fp)
                 (exponent_of r2)
      in if prefix ''Infinity'' u then (if neg then NegInf else PosInf)
         else if ip = [] \<and> fp = [] then NaN
         else Fin (if neg then - mv else mv))"

subsection \<open>The page: populateFilters, render, clearFilters\<close>

text \<open>
  A \<open>select\<close> element: its options (value and label) and its value. Assigning a value
  that no option has leaves the element without a selected option, and its value then
  reads as the empty string.
\<close>

record select_el =
  sel_options :: "(string \<times> string) list"
  sel_value :: string

text \<open>
  What \<open>renderWheel\<close> puts into a card, without the markup around it: the entry, whose
  fields become the badges, the size label and the link, and the two install commands.
\<close>

record card =
  card_wheel :: wheel
  pipCmd :: string
  uvCmd :: string

definition renderWheel :: "wheel \<Rightarrow> card" where
  "renderWheel w =
     \<lparr>card_wheel = w, pipCmd = ''pip install '' @ w_url w, uvCmd = ''uv pip install '' @ w_url w\<rparr>"

text \<open>The content of \<open>#wheel-list\<close>: the empty-state block, or the cards.\<close>

datatype list_view = EmptyState | Cards "card list"

text \<open>
  The script's variables together with the elements it writes: \<open>#search\<close>, the four
  filter elements, \<open>#count\<close> and \<open>#wheel-list\<close> with its background.
\<close>

record page = state +
  search_value :: string
  cuda_select :: select_el
  python_select :: select_el
  pytorch_select :: select_el
  platform_select :: select_el
  count_text :: nat
  wheel_list :: list_view
  list_background :: string

definition platformLabels :: "(string \<times> string) list" where
  "platformLabels =
     [(''linux_x86_64'', ''Linux x86_64''), (''linux_aarch64'', ''Linux ARM64''),
      (''win_amd64'', ''Windows'')]"

text \<open>\<open>platformLabels[v] || v\<close>.\<close>

definition platform_label :: "string \<Rightarrow> string" where
  "platform_label x = (case map_of platformLabels x of Some l \<Rightarrow> l | None \<Rightarrow> x)"

text \<open>
  One element of \<open>populateFilters\<close>: the option \<open>All\<close>, then one option per value, then
  the assignment of the current filter to the element's value. (The values are taken to be
  free of markup characters, so that each becomes the option it names.)
\<close>

definition fill_select :: "(string \<Rightarrow> string) \<Rightarrow> string list \<Rightarrow> string \<Rightarrow> select_el" where
  "fill_select label vals chosen =
     (let opts = (''all'', ''All'') # map (\<lambda>x. (x, label x)) vals
      in \<lparr>sel_options = opts, sel_value = (if chosen \<in> set (map fst opts) then chosen else [])\<rparr>)"

definition populateFilters :: "(string \<Rightarrow> jsnum) \<Rightarrow> catalog \<Rightarrow> page \<Rightarrow> page" where
  "populateFilters pf c p =
     p\<lparr>cuda_select := fill_select id (getUnique pf c p Kcuda) (f_cuda (filters p)),
       python_select := fill_select id (getUnique pf c p Kpy) (f_python (filters p)),
       pytorch_select := fill_select id (getUnique pf c p Ktorch) (f_pytorch (filters p)),
       platform_select := fill_select platform_label (getUnique pf c p Kos) (f_platform (filters p))\<rparr>"

text \<open>
  \<^verbatim>\<open>
  function render() {
    const wheels = filterWheels();
    count.textContent = wheels.length;
    if (wheels.length === 0) {
      list.innerHTML = (the empty-state block);
      list.style.background = 'transparent';
      return;
    }
    list.style.background = 'var(--black)';
    list.innerHTML = wheels.map(renderWheel).join('');
  }
  \<close>
\<close>

definition render :: "catalog \<Rightarrow> page \<Rightarrow> page" where
  "render c p =
     (let wheels = filterWheels c p in
      if length wheels = 0
      then p\<lparr>count_text := length wheels, wheel_list := EmptyState,
             list_background := ''transparent''\<rparr>
      else p\<lparr>count_text := length wheels, list_background := ''var(--black)'',
             wheel_list := Cards (map renderWheel wheels)\<rparr>)"

text \<open>
  \<^verbatim>\<open>
  function clearFilters() {
    filters = { cuda: 'all', python: 'all', pytorch: 'all', platform: 'all' };
    searchQuery = '';
    document.getElementById('search').value = '';
    populateFilters();
    render();
  }
  \<close>
\<close>

definition clearFilters :: "(string \<Rightarrow> jsnum) \<Rightarrow> catalog \<Rightarrow> page \<Rightarrow> page" where
  "clearFilters pf c p =
     render c (populateFilters pf c
       (p\<lparr>filters := \<lparr>f_cuda = ''all'', f_python = ''all'', f_pytorch = ''all'', f_platform = ''all''\<rparr>,
          searchQuery := [],
          search_value := []\<rparr>))"

subsection \<open>copyCmd and its timers\<close>

text \<open>
  One copy button: whether it carries the class \<open>copied\<close>, and which icon it shows.
  Around it, the clipboard and the timers that \<open>setTimeout\<close> has registered and that have
  not fired yet, each with the time (in milliseconds) at which it is due. The script keeps
  no handle to a timer and never cancels one. \<open>revert_log\<close> records the due time of every
  timer callback that has run, in the order they ran.
\<close>

datatype icon = CopyIcon | CheckIcon

record button =
  copied :: bool
  icon :: icon

record copy_ui =
  clipboard :: string
  btn :: button
  timers :: "nat list"
  revert_log :: "nat list"

text \<open>The callback given to \<open>setTimeout\<close>.\<close>

definition revert :: "button \<Rightarrow> button" where
  "revert b = b\<lparr>copied := False, icon := CopyIcon\<rparr>"

text \<open>
  \<open>copyCmd(btn, cmd)\<close>, from the moment \<open>now\<close> at which the awaited clipboard write has
  settled. When the write is rejected (\<open>ok\<close> is false) the function ends there with
  nothing changed; otherwise the button is marked and a timer is registered for 1500
  milliseconds later.
  \<^verbatim>\<open>
  async function copyCmd(btn, cmd) {
    await navigator.clipboard.writeText(cmd);
    btn.classList.add('copied');
    btn.innerHTML = (the check icon);
    setTimeout(() => {
      btn.classList.remove('copied');
      btn.innerHTML = (the copy icon);
    }, 1500);
  }
  \<close>
\<close>

definition copyCmd :: "nat \<Rightarrow> bool \<Rightarrow> string \<Rightarrow> copy_ui \<Rightarrow> copy_ui" where
  "copyCmd now ok cmd u =
     (if \<not> ok then u
      else u\<lparr>clipboard := cmd,
             btn := (btn u)\<lparr>copied := True, icon := CheckIcon\<rparr>,
             timers := timers u @ [now + 1500]\<rparr>)"

text \<open>
  The event loop up to time \<open>t\<close>: every registered timer that is due by then runs its
  callback once, in the order of registration, and is gone.
\<close>

definition run_timers :: "nat \<Rightarrow> copy_ui \<Rightarrow> copy_ui" where
  "run_timers t u =
     (let due = filter (\<lambda>d. d \<le> t) (timers u)
      in u\<lparr>btn := foldl (\<lambda>b d. revert b) (btn u) due,
            timers := filter (\<lambda>d. t < d) (timers u),
            revert_log := revert_log u @ due\<rparr>)"

text \<open>A click whose clipboard write settles at time \<open>t\<close>, after the timers due by \<open>t\<close>.\<close>

definition copy_at :: "nat \<Rightarrow> string \<Rightarrow> copy_ui \<Rightarrow> copy_ui" where
  "copy_at t cmd u = copyCmd t True cmd (run_timers t u)"

definition idle_ui :: copy_ui where
  "idle_ui = \<lparr>clipboard = [], btn = \<lparr>copied = False, icon = CopyIcon\<rparr>, timers = [], revert_log = []\<rparr>"

subsection \<open>The specification's predicates\<close>

text \<open>
  The definitions of this part follow the words of the specification, not the script; the
  theorems below compare them with the functions above.

  The four facets, with the filter and the entry field that belong to each: the script
  tests \<open>filters.cuda\<close> against \<open>w.cuda\<close>, \<open>filters.python\<close> against \<open>w.py\<close>,
  \<open>filters.pytorch\<close> against \<open>w.torch\<close> and \<open>filters.platform\<close> against \<open>w.os\<close>.
\<close>

datatype facet = Cuda | Python | Pytorch | Platform

fun facet_filter :: "facet \<Rightarrow> filters \<Rightarrow> string" where
  "facet_filter Cuda fs = f_cuda fs"
| "facet_filter Python fs = f_python fs"
| "facet_filter Pytorch fs = f_pytorch fs"
| "facet_filter Platform fs = f_platform fs"

fun facet_field :: "facet \<Rightarrow> wheel \<Rightarrow> string" where
  "facet_field Cuda w = w_cuda w"
| "facet_field Python w = w_py w"
| "facet_field Pytorch w = w_torch w"
| "facet_field Platform w = w_os w"

text \<open>Every facet filter is \<open>all\<close> or equals the entry's field.\<close>

definition facets_pass :: "filters \<Rightarrow> wheel \<Rightarrow> bool" where
  "facets_pass fs w =
     ((f_cuda fs = ''all'' \<or> w_cuda w = f_cuda fs) \<and>
      (f_python fs = ''all'' \<or> w_py w = f_python fs) \<and>
      (f_pytorch fs = ''all'' \<or> w_torch w = f_pytorch fs) \<and>
      (f_platform fs = ''all'' \<or> w_os w = f_platform fs))"

text \<open>
  The text is a substring of the field when the case of letters is ignored on both sides,
  and the search of the specification: this holds for one of the five fields.
\<close>

definition spec_ci_includes :: "string \<Rightarrow> string \<Rightarrow> bool" where
  "spec_ci_includes field text = str_includes (toLowerCase field) (toLowerCase text)"

definition spec_search_hit :: "string \<Rightarrow> wheel \<Rightarrow> bool" where
  "spec_search_hit text w =
     (spec_ci_includes (w_v w) text \<or> spec_ci_includes (w_cuda w) text \<or>
      spec_ci_includes (w_py w) text \<or> spec_ci_includes (w_torch w) text \<or>
      spec_ci_includes (w_os w) text)"

text \<open>
  The family of an entry, read off the first character of its version.
\<close>

definition spec_family_matches :: "string \<Rightarrow> wheel \<Rightarrow> bool" where
  "spec_family_matches scope w =
     (if scope = ''all'' then startsWith (w_v w) ''2'' \<or> startsWith (w_v w) ''3''
      else startsWith (w_v w) scope)"

text \<open>
  Modelled from the spec: the contents of the arrays \<open>flashAttn2\<close> and \<open>flashAttn3\<close>,
  which another script of the page supplies. The specification gives the catalog as
  partitioned into the group of family 2 and the group of family 3, the family of an
  entry being determined by the leading digit of its version; so every entry of
  \<open>flashAttn2\<close> has a version that starts with 2 and every entry of \<open>flashAttn3\<close> one that
  starts with 3.
\<close>

definition filed_by_leading_digit :: "catalog \<Rightarrow> bool" where
  "filed_by_leading_digit c =
     (list_all (\<lambda>w. startsWith (w_v w) ''2'') (flashAttn2 c) \<and>
      list_all (\<lambda>w. startsWith (w_v w) ''3'') (flashAttn3 c))"

text \<open>
  A list of strings in descending order of their parsed values, compared as the language
  compares numbers (\<open>>=\<close>).
\<close>

definition desc_by_parse :: "(string \<Rightarrow> jsnum) \<Rightarrow> string list \<Rightarrow> bool" where
  "desc_by_parse pf xs = sorted_wrt (\<lambda>a b. js_ge (pf a) (pf b)) xs"

text \<open>The default filters, and the first three assignments of \<open>clearFilters\<close>.\<close>

definition all_filters :: filters where
  "all_filters = \<lparr>f_cuda = ''all'', f_python = ''all'', f_pytorch = ''all'', f_platform = ''all''\<rparr>"

definition reset_selection :: "page \<Rightarrow> page" where
  "reset_selection p = p\<lparr>filters := all_filters, searchQuery := [], search_value := []\<rparr>"

text \<open>
  Two copies on one idle button, the first write settling at \<open>t1\<close> and the second at
  \<open>t2\<close>.
\<close>

definition two_copies :: "nat \<Rightarrow> nat \<Rightarrow> string \<Rightarrow> string \<Rightarrow> copy_ui" where
  "two_copies t1 t2 cmd1 cmd2 = copy_at t2 cmd2 (copy_at t1 cmd1 idle_ui)"

subsection \<open>Sample data\<close>

definition wheel_a :: wheel where
  "wheel_a = \<lparr>w_v = ''2.5.3'', w_cuda = ''12.1'', w_py = ''3.10'', w_torch = ''2.4'',
     w_os = ''linux_x86_64'', w_url = ''https://example.org/a.whl'', w_size = ''180 MB''\<rparr>"

definition wheel_b :: wheel where
  "wheel_b = \<lparr>w_v = ''2.8.3'', w_cuda = ''11.8'', w_py = ''3.9'', w_torch = ''2.10'',
     w_os = ''win_amd64'', w_url = ''https://example.org/b.whl'', w_size = ''175 MB''\<rparr>"

definition wheel_c :: wheel where
  "wheel_c = \<lparr>w_v = ''3.0.0'', w_cuda = ''12.8'', w_py = ''3.12'', w_torch = ''2.9'',
     w_os = ''linux_aarch64'', w_url = ''https://example.org/c.whl'', w_size = ''210 MB''\<rparr>"

text \<open>An entry whose version carries capital letters.\<close>

definition wheel_post :: wheel where
  "wheel_post = \<lparr>w_v = ''2.7.4.POST1'', w_cuda = ''12.4'', w_py = ''3.11'', w_torch = ''2.6'',
     w_os = ''linux_x86_64'', w_url = ''https://example.org/p.whl'', w_size = ''190 MB''\<rparr>"

definition demo_catalog :: catalog where
  "demo_catalog = \<lparr>flashAttn2 = [wheel_a, wheel_b], flashAttn3 = [wheel_c]\<rparr>"

text \<open>
  A catalog of family 2 whose framework versions are 2.1, 2.2, 2.10 and 2.1 again, in this
  order: 2.1 and 2.10 parse to the same number.
\<close>

definition torch_wheel :: "string \<Rightarrow> wheel" where
  "torch_wheel t = wheel_a\<lparr>w_torch := t\<rparr>"

definition tie_catalog :: catalog where
  "tie_catalog =
     \<lparr>flashAttn2 = [torch_wheel ''2.1'', torch_wheel ''2.2'', torch_wheel ''2.10'', torch_wheel ''2.1''],
      flashAttn3 = []\<rparr>"

definition demo_state :: "string \<Rightarrow> filters \<Rightarrow> string \<Rightarrow> state" where
  "demo_state scope fs text = \<lparr>currentVersion = scope, filters = fs, searchQuery = text\<rparr>"

text \<open>
  A page in family 2 on which nothing is visible: a filter no entry has, and a search
  text.
\<close>

definition empty_select :: select_el where
  "empty_select = \<lparr>sel_options = [], sel_value = []\<rparr>"

definition demo_page :: page where
  "demo_page =
     \<lparr>currentVersion = ''2'', filters = all_filters\<lparr>f_cuda := ''9.9''\<rparr>, searchQuery = ''zzz'',
      search_value = ''zzz'', cuda_select = empty_select, python_select = empty_select,
      pytorch_select = empty_select, platform_select = empty_select, count_text = 0,
      wheel_list = EmptyState, list_background = ''transparent''\<rparr>"

section \<open>Properties of the string operations\<close>

lemma str_includes_iff: "str_includes s q \<longleftrightarrow> (\<exists>ps ss. s = ps @ q @ ss)"
proof (induction s)
  case Nil
  then show ?case by auto
next
  case (Cons x xs)
  show ?case
  proof
    assume "str_includes (x # xs) q"
    then consider "prefix q (x # xs)" | "str_includes xs q" by auto
    then show "\<exists>ps ss. x # xs = ps @ q @ ss"
    proof cases
      case 1
      then obtain ss where "x # xs = q @ ss" by (auto simp: prefix_def)
      then have "x # xs = [] @ q @ ss" by simp
      then show ?thesis by blast
    next
      case 2
      then obtain ps ss where "xs = ps @ q @ ss" using Cons.IH by blast
      then have "x # xs = (x # ps) @ q @ ss" by simp
      then show ?thesis by blast
    qed
  next
    assume "\<exists>ps ss. x # xs = ps @ q @ ss"
    then obtain ps ss where e: "x # xs = ps @ q @ ss" by blast
    show "str_includes (x # xs) q"
    proof (cases ps)
      case Nil
      then have "prefix q (x # xs)" using e by (simp add: prefix_def)
      then show ?thesis by simp
    next
      case (Cons p ps')
      then have "xs = ps' @ q @ ss" using e by simp
      then have "str_includes xs q" using Cons.IH by blast
      then show ?thesis by simp
    qed
  qed
qed

lemma lower_char_idem: "lower_char (lower_char ch) = lower_char ch"
proof -
  have "of_char (char_of (of_char ch + 32 :: nat) :: char) = ((of_char ch + 32) :: nat)"
    if "(of_char ch :: nat) \<le> 90"
    using that by simp
  then show ?thesis by (auto simp: lower_char_def Let_def)
qed

lemma toLowerCase_idem: "toLowerCase (toLowerCase s) = toLowerCase s"
  by (simp add: toLowerCase_def lower_char_idem)

lemma str_includes_lower:
  "str_includes s q \<Longrightarrow> str_includes (toLowerCase s) (toLowerCase q)"
  unfolding str_includes_iff toLowerCase_def
  by (metis map_append)

section \<open>The filter\<close>

text \<open>
  The callback keeps an entry exactly when every facet filter passes and, if there is a
  search text, the search hits: the four early returns come before the search.
\<close>

lemma keep_wheel_iff:
  "keep_wheel s w \<longleftrightarrow>
     facets_pass (filters s) w \<and> (searchQuery s = [] \<or> search_hit (toLowerCase (searchQuery s)) w)"
  by (auto simp: keep_wheel_def facets_pass_def)

lemma filterWheels_unfiltered:
  assumes "filters s = all_filters" and "searchQuery s = []"
  shows "filterWheels c s = getWheels c s"
proof -
  have "keep_wheel s = (\<lambda>w. True)"
    using assms by (simp add: keep_wheel_def all_filters_def fun_eq_iff)
  then show ?thesis by (simp add: filterWheels_def)
qed

text \<open>
  Claim C1, as amended. With a search text, an entry of the scoped catalog is returned
  exactly when it passes every facet filter and the search hits it: the search is
  intersected with the facet filters and does not replace them.
\<close>

theorem search_intersects_facets:
  assumes "searchQuery s \<noteq> []"
  shows "filterWheels c s =
         filter (\<lambda>w. facets_pass (filters s) w \<and> search_hit (toLowerCase (searchQuery s)) w)
           (getWheels c s)"
proof -
  have "keep_wheel s =
        (\<lambda>w. facets_pass (filters s) w \<and> search_hit (toLowerCase (searchQuery s)) w)"
    using assms by (auto simp: keep_wheel_iff)
  then show ?thesis by (simp add: filterWheels_def)
qed

theorem search_intersects_facets_witness:
  "searchQuery (demo_state ''all'' (all_filters\<lparr>f_cuda := ''12.1''\<rparr>) ''LINUX'') \<noteq> [] \<and>
   filterWheels demo_catalog (demo_state ''all'' (all_filters\<lparr>f_cuda := ''12.1''\<rparr>) ''LINUX'') =
     [wheel_a]"
proof -
  let ?s = "demo_state ''all'' (all_filters\<lparr>f_cuda := ''12.1''\<rparr>) ''LINUX''"
  have h: "searchQuery ?s \<noteq> []"
    by (simp add: demo_state_def)
  have "filter (\<lambda>w. facets_pass (filters ?s) w \<and> search_hit (toLowerCase (searchQuery ?s)) w)
          (getWheels demo_catalog ?s) = [wheel_a]"
    by code_simp
  with h search_intersects_facets [OF h, of demo_catalog] show ?thesis by simp
qed

text \<open>
  The claim as stated fails: with the CUDA filter at 11.8 and the search text 12.1, the
  entry \<open>wheel_a\<close> (CUDA 12.1) is in scope and the search hits it, yet it is not returned.
\<close>

theorem search_replaces_facets_counterexample:
  "searchQuery (demo_state ''all'' (all_filters\<lparr>f_cuda := ''11.8''\<rparr>) ''12.1'') \<noteq> [] \<and>
   search_hit (toLowerCase ''12.1'') wheel_a \<and>
   wheel_a \<in> set (getWheels demo_catalog
     (demo_state ''all'' (all_filters\<lparr>f_cuda := ''11.8''\<rparr>) ''12.1'')) \<and>
   wheel_a \<notin> set (filterWheels demo_catalog
     (demo_state ''all'' (all_filters\<lparr>f_cuda := ''11.8''\<rparr>) ''12.1''))"
  by code_simp

text \<open>
  Claim C2. When one facet filter has a value other than \<open>all\<close> and the other three are
  \<open>all\<close>, every returned entry has exactly that value in the facet's field.
\<close>

theorem single_facet_exact:
  assumes "facet_filter fc (filters s) = val" and "val \<noteq> ''all''"
    and "\<forall>g. g \<noteq> fc \<longrightarrow> facet_filter g (filters s) = ''all''"
    and "w \<in> set (filterWheels c s)"
  shows "facet_field fc w = val"
proof -
  from assms(4) have "keep_wheel s w" by (simp add: filterWheels_def)
  then have "facets_pass (filters s) w" by (simp add: keep_wheel_iff)
  with assms(1,2) show ?thesis by (cases fc) (auto simp: facets_pass_def)
qed

theorem single_facet_exact_witness:
  "facet_filter Cuda (filters (demo_state ''all'' (all_filters\<lparr>f_cuda := ''12.1''\<rparr>) [])) = ''12.1'' \<and>
   ''12.1'' \<noteq> ''all'' \<and>
   (\<forall>g. g = Cuda \<or>
      facet_filter g (filters (demo_state ''all'' (all_filters\<lparr>f_cuda := ''12.1''\<rparr>) [])) = ''all'') \<and>
   wheel_a \<in> set (filterWheels demo_catalog (demo_state ''all'' (all_filters\<lparr>f_cuda := ''12.1''\<rparr>) [])) \<and>
   facet_field Cuda wheel_a = ''12.1''"
proof -
  let ?s = "demo_state ''all'' (all_filters\<lparr>f_cuda := ''12.1''\<rparr>) []"
  have h1: "facet_filter Cuda (filters ?s) = ''12.1''"
    by (simp add: demo_state_def all_filters_def)
  have h2: "''12.1'' \<noteq> ''all''" by simp
  have h3: "\<forall>g. g \<noteq> Cuda \<longrightarrow> facet_filter g (filters ?s) = ''all''"
  proof (intro allI impI)
    fix g :: facet assume "g \<noteq> Cuda"
    then show "facet_filter g (filters ?s) = ''all''"
      by (cases g) (simp_all add: demo_state_def all_filters_def)
  qed
  have h4: "wheel_a \<in> set (filterWheels demo_catalog ?s)" by code_simp
  from single_facet_exact [OF h1 h2 h3 h4] h1 h2 h3 h4 show ?thesis by blast
qed

text \<open>
  Claim C3. On a catalog in which every entry is filed in the array of its version's
  leading digit, for each of the scopes 2, 3 and \<open>all\<close> every returned entry has the
  family of the scope (either family for \<open>all\<close>), and the returned entries are a
  subsequence of the array the scope selects (\<open>flashAttn2\<close>, \<open>flashAttn3\<close>, or the first
  followed by the second): they appear in catalog order and are not sorted again.
\<close>

theorem scope_selects_group:
  assumes "currentVersion s = ''2'' \<or> currentVersion s = ''3'' \<or> currentVersion s = ''all''"
    and "filed_by_leading_digit c"
  shows "(\<forall>w \<in> set (filterWheels c s). spec_family_matches (currentVersion s) w) \<and>
         subseq (filterWheels c s)
           (if currentVersion s = ''2'' then flashAttn2 c
            else if currentVersion s = ''3'' then flashAttn3 c
            else flashAttn2 c @ flashAttn3 c)"
proof (intro conjI ballI)
  fix w
  assume "w \<in> set (filterWheels c s)"
  then have mem: "w \<in> set (getWheels c s)" by (simp add: filterWheels_def)
  from assms(2) have two: "\<And>x. x \<in> set (flashAttn2 c) \<Longrightarrow> startsWith (w_v x) ''2''"
    and three: "\<And>x. x \<in> set (flashAttn3 c) \<Longrightarrow> startsWith (w_v x) ''3''"
    by (simp_all add: filed_by_leading_digit_def list_all_iff)
  from assms(1) mem two three show "spec_family_matches (currentVersion s) w"
    by (auto simp: getWheels_def spec_family_matches_def split: if_splits)
next
  have "subseq (filterWheels c s) (getWheels c s)"
    by (simp add: filterWheels_def)
  then show "subseq (filterWheels c s)
           (if currentVersion s = ''2'' then flashAttn2 c
            else if currentVersion s = ''3'' then flashAttn3 c
            else flashAttn2 c @ flashAttn3 c)"
    by (simp add: getWheels_def)
qed

theorem scope_selects_group_witness:
  "currentVersion (demo_state ''all'' (all_filters\<lparr>f_platform := ''linux_aarch64''\<rparr>) ''3.'') = ''all'' \<and>
   filed_by_leading_digit demo_catalog \<and>
   filterWheels demo_catalog (demo_state ''2'' all_filters []) = [wheel_a, wheel_b] \<and>
   spec_family_matches ''2'' wheel_a \<and> spec_family_matches ''2'' wheel_b \<and>
   subseq [wheel_a, wheel_b] (flashAttn2 demo_catalog) \<and>
   filterWheels demo_catalog (demo_state ''3'' all_filters []) = [wheel_c] \<and>
   spec_family_matches ''3'' wheel_c \<and>
   filterWheels demo_catalog (demo_state ''all'' all_filters ''3.'') = [wheel_a, wheel_b, wheel_c] \<and>
   spec_family_matches ''all'' wheel_a \<and> spec_family_matches ''all'' wheel_b \<and>
   spec_family_matches ''all'' wheel_c \<and>
   subseq [wheel_a, wheel_b, wheel_c] (flashAttn2 demo_catalog @ flashAttn3 demo_catalog) \<and>
   filterWheels demo_catalog
     (demo_state ''all'' (all_filters\<lparr>f_platform := ''linux_aarch64''\<rparr>) ''3.'') = [wheel_c]"
proof -
  let ?s2 = "demo_state ''2'' all_filters []"
  let ?s3 = "demo_state ''3'' all_filters []"
  let ?sa = "demo_state ''all'' all_filters ''3.''"
  let ?sf = "demo_state ''all'' (all_filters\<lparr>f_platform := ''linux_aarch64''\<rparr>) ''3.''"
  have wf: "filed_by_leading_digit demo_catalog" by code_simp
  have cv: "currentVersion ?s2 = ''2''" "currentVersion ?s3 = ''3''" "currentVersion ?sa = ''all''"
    "currentVersion ?sf = ''all''"
    by (simp_all add: demo_state_def)
  have f2: "filterWheels demo_catalog ?s2 = [wheel_a, wheel_b]" by code_simp
  have f3: "filterWheels demo_catalog ?s3 = [wheel_c]" by code_simp
  have fa: "filterWheels demo_catalog ?sa = [wheel_a, wheel_b, wheel_c]" by code_simp
  have ff: "filterWheels demo_catalog ?sf = [wheel_c]" by code_simp
  from scope_selects_group [of ?s2 demo_catalog] wf cv f2
  have r2: "spec_family_matches ''2'' wheel_a \<and> spec_family_matches ''2'' wheel_b \<and>
      subseq [wheel_a, wheel_b] (flashAttn2 demo_catalog)"
    by simp
  from scope_selects_group [of ?s3 demo_catalog] wf cv f3
  have r3: "spec_family_matches ''3'' wheel_c" by simp
  from scope_selects_group [of ?sa demo_catalog] wf cv fa
  have ra: "spec_family_matches ''all'' wheel_a \<and> spec_family_matches ''all'' wheel_b \<and>
      spec_family_matches ''all'' wheel_c \<and>
      subseq [wheel_a, wheel_b, wheel_c] (flashAttn2 demo_catalog @ flashAttn3 demo_catalog)"
    by simp
  from wf cv f2 f3 fa ff r2 r3 ra show ?thesis by simp
qed

text \<open>
  The search of the script and the search of the specification. A hit of the script is a
  hit of the specification, and the two agree on an entry whose version, CUDA, Python and
  framework fields hold no capital letter.
\<close>

lemma search_hit_imp_spec:
  assumes "search_hit (toLowerCase text) w"
  shows "spec_search_hit text w"
proof -
  have "str_includes f (toLowerCase text) \<Longrightarrow> spec_ci_includes f text" for f
    using str_includes_lower [of f "toLowerCase text"]
    by (simp add: spec_ci_includes_def toLowerCase_idem)
  moreover have "str_includes (toLowerCase (w_os w)) (toLowerCase text) \<Longrightarrow>
      spec_ci_includes (w_os w) text"
    by (simp add: spec_ci_includes_def)
  ultimately show ?thesis
    using assms unfolding search_hit_def spec_search_hit_def by blast
qed

lemma search_hit_lowercase_fields:
  assumes "toLowerCase (w_v w) = w_v w" and "toLowerCase (w_cuda w) = w_cuda w"
    and "toLowerCase (w_py w) = w_py w" and "toLowerCase (w_torch w) = w_torch w"
  shows "search_hit (toLowerCase text) w \<longleftrightarrow> spec_search_hit text w"
  using assms by (simp add: search_hit_def spec_search_hit_def spec_ci_includes_def)

text \<open>
  Claim C4. The search should hit when the text is a substring of one of the five fields,
  the case of letters ignored in all five. The script lowercases the text and \<open>w.os\<close>
  only: for the entry of version \<open>2.7.4.POST1\<close> and the text \<open>post1\<close> the search of the
  specification hits, the search of the script does not, and the entry is not returned.
\<close>

theorem search_case_sensitive_fields:
  "spec_search_hit ''post1'' wheel_post \<and>
   \<not> search_hit (toLowerCase ''post1'') wheel_post \<and>
   filterWheels \<lparr>flashAttn2 = [wheel_post], flashAttn3 = []\<rparr>
     (demo_state ''all'' all_filters ''post1'') = []"
  by code_simp

text \<open>
  Claim C10. For a version scope that is neither the string 2 nor the string 3, be it
  \<open>all\<close> or anything else, \<open>getWheels\<close> is the first array followed by the second, which
  is what it is for \<open>all\<close>.
\<close>

theorem getWheels_other_scope_is_all:
  assumes "currentVersion s \<noteq> ''2''" and "currentVersion s \<noteq> ''3''"
  shows "getWheels c s = flashAttn2 c @ flashAttn3 c \<and>
         getWheels c s = getWheels c (s\<lparr>currentVersion := ''all''\<rparr>)"
  using assms by (simp add: getWheels_def)

theorem getWheels_other_scope_is_all_witness:
  "currentVersion (demo_state ''4'' all_filters []) \<noteq> ''2'' \<and>
   currentVersion (demo_state ''4'' all_filters []) \<noteq> ''3'' \<and>
   getWheels demo_catalog (demo_state ''4'' all_filters []) = [wheel_a, wheel_b, wheel_c]"
  using getWheels_other_scope_is_all [of "demo_state ''4'' all_filters []" demo_catalog]
  by (simp add: demo_state_def demo_catalog_def)

section \<open>The facet values\<close>

lemma set_foldl_set_add: "set (foldl set_add acc xs) = set acc \<union> set xs"
  by (induction xs arbitrary: acc) (auto simp: set_add_def)

lemma distinct_foldl_set_add: "distinct acc \<Longrightarrow> distinct (foldl set_add acc xs)"
  by (induction xs arbitrary: acc) (auto simp: set_add_def)

lemma set_new_Set: "set (new_Set xs) = set xs"
  by (simp add: new_Set_def set_foldl_set_add)

lemma distinct_new_Set: "distinct (new_Set xs)"
  by (simp add: new_Set_def distinct_foldl_set_add)

lemma set_insert_by: "set (insert_by cmp x ys) = insert x (set ys)"
  by (induction ys) auto

lemma distinct_insert_by: "distinct (insert_by cmp x ys) \<longleftrightarrow> x \<notin> set ys \<and> distinct ys"
  by (induction ys) (auto simp: set_insert_by)

lemma set_array_sort: "set (array_sort cmp xs) = set xs"
  by (induction xs) (simp_all add: array_sort_def set_insert_by)

lemma distinct_array_sort: "distinct (array_sort cmp xs) = distinct xs"
  by (induction xs)
    (simp_all add: array_sort_def distinct_insert_by set_array_sort [unfolded array_sort_def])

text \<open>
  On numbers the comparison function of \<open>getUnique\<close> agrees with \<open>>=\<close>, which is total and
  transitive there; a not-a-number makes every comparison come out as zero.
\<close>

lemma cmp_le_iff_ge:
  "a \<noteq> NaN \<Longrightarrow> b \<noteq> NaN \<Longrightarrow> sort_sign (js_sub b a) \<le> 0 \<longleftrightarrow> js_ge a b"
  by (cases a; cases b) auto

lemma js_ge_total: "a \<noteq> NaN \<Longrightarrow> b \<noteq> NaN \<Longrightarrow> js_ge a b \<or> js_ge b a"
  by (cases a; cases b) auto

lemma js_ge_trans: "js_ge a b \<Longrightarrow> js_ge b c \<Longrightarrow> js_ge a c"
  by (cases a; cases b; cases c) auto

lemma js_sub_NaN_right: "js_sub a NaN = NaN"
  by (cases a) simp_all

lemma sorted_insert_by:
  assumes "sorted_wrt (\<lambda>a b. js_ge (pf a) (pf b)) ys"
    and "\<forall>y \<in> set ys. pf y \<noteq> NaN" and "pf x \<noteq> NaN"
  shows "sorted_wrt (\<lambda>a b. js_ge (pf a) (pf b)) (insert_by (getUnique_cmp pf) x ys)"
  using assms
proof (induction ys)
  case Nil
  then show ?case by simp
next
  case (Cons y ys)
  show ?case
  proof (cases "getUnique_cmp pf x y \<le> 0")
    case True
    then have xy: "js_ge (pf x) (pf y)"
      using Cons.prems by (simp add: getUnique_cmp_def cmp_le_iff_ge)
    have "\<forall>z \<in> set ys. js_ge (pf x) (pf z)"
      using xy Cons.prems(1) by (auto intro: js_ge_trans)
    with xy True Cons.prems(1) show ?thesis by simp
  next
    case False
    then have "\<not> js_ge (pf x) (pf y)"
      using Cons.prems by (simp add: getUnique_cmp_def cmp_le_iff_ge)
    then have yx: "js_ge (pf y) (pf x)"
      using js_ge_total [of "pf x" "pf y"] Cons.prems by auto
    have "sorted_wrt (\<lambda>a b. js_ge (pf a) (pf b)) (insert_by (getUnique_cmp pf) x ys)"
      using Cons by simp
    with yx False Cons.prems(1) show ?thesis by (simp add: set_insert_by)
  qed
qed

lemma sorted_array_sort:
  "\<forall>y \<in> set xs. pf y \<noteq> NaN \<Longrightarrow>
   sorted_wrt (\<lambda>a b. js_ge (pf a) (pf b)) (array_sort (getUnique_cmp pf) xs)"
proof (induction xs)
  case Nil
  then show ?case by (simp add: array_sort_def)
next
  case (Cons x xs)
  have "sorted_wrt (\<lambda>a b. js_ge (pf a) (pf b))
          (insert_by (getUnique_cmp pf) x (array_sort (getUnique_cmp pf) xs))"
    using Cons by (intro sorted_insert_by) (simp_all add: set_array_sort)
  then show ?case by (simp add: array_sort_def)
qed

text \<open>
  Values that parse to the same number keep their order: an inserted value goes in front
  of the first value it ties with.
\<close>

lemma cmp_tie: "pf x = pf y \<Longrightarrow> getUnique_cmp pf x y \<le> 0"
  by (cases "pf y") (simp_all add: getUnique_cmp_def)

lemma filter_insert_by:
  "filter (\<lambda>y. pf y = n) (insert_by (getUnique_cmp pf) x ys) =
     (if pf x = n then x # filter (\<lambda>y. pf y = n) ys else filter (\<lambda>y. pf y = n) ys)"
proof (induction ys)
  case Nil
  then show ?case by simp
next
  case (Cons y ys)
  show ?case
  proof (cases "getUnique_cmp pf x y \<le> 0")
    case True
    then show ?thesis by simp
  next
    case False
    then have "pf x \<noteq> pf y" using cmp_tie [of pf x y] by blast
    with False Cons.IH show ?thesis by auto
  qed
qed

lemma filter_array_sort:
  "filter (\<lambda>y. pf y = n) (array_sort (getUnique_cmp pf) xs) = filter (\<lambda>y. pf y = n) xs"
  by (induction xs)
    (simp_all add: array_sort_def filter_insert_by [where ys = "foldr (insert_by (getUnique_cmp pf)) xs []" for xs])

lemma insert_by_NaN:
  "pf x = NaN \<Longrightarrow> insert_by (getUnique_cmp pf) x ys = x # ys"
  by (cases ys) (simp_all add: getUnique_cmp_def js_sub_NaN_right)

lemma array_sort_all_NaN:
  "\<forall>y \<in> set xs. pf y = NaN \<Longrightarrow> array_sort (getUnique_cmp pf) xs = xs"
  by (induction xs) (simp_all add: array_sort_def insert_by_NaN)

text \<open>
  Claim C5, as amended. For every key and every version scope, \<open>getUnique\<close> returns the
  values of that field among the entries in scope, each once. When every value parses to
  a number the list is in descending order of the parsed values, and values that parse to
  the same number stand in the order of their first occurrence in the scoped catalog. When
  no value parses to a number, as for the platform names, the list is not ordered by any
  value: it is the list of distinct values in the order of their first occurrence.
\<close>

theorem getUnique_values_order:
  "set (getUnique pf c s key) = get_field key ` set (getWheels c s) \<and>
   distinct (getUnique pf c s key) \<and>
   ((\<forall>w \<in> set (getWheels c s). pf (get_field key w) \<noteq> NaN) \<longrightarrow>
      desc_by_parse pf (getUnique pf c s key) \<and>
      (\<forall>n. filter (\<lambda>x. pf x = n) (getUnique pf c s key) =
           filter (\<lambda>x. pf x = n) (new_Set (map (get_field key) (getWheels c s))))) \<and>
   ((\<forall>w \<in> set (getWheels c s). pf (get_field key w) = NaN) \<longrightarrow>
      getUnique pf c s key = new_Set (map (get_field key) (getWheels c s)))"
proof (intro conjI impI allI)
  show "set (getUnique pf c s key) = get_field key ` set (getWheels c s)"
    by (simp add: getUnique_def set_array_sort set_new_Set)
  show "distinct (getUnique pf c s key)"
    by (simp add: getUnique_def distinct_array_sort distinct_new_Set)
next
  assume "\<forall>w \<in> set (getWheels c s). pf (get_field key w) \<noteq> NaN"
  then have "\<forall>y \<in> set (new_Set (map (get_field key) (getWheels c s))). pf y \<noteq> NaN"
    by (auto simp: set_new_Set)
  then show "desc_by_parse pf (getUnique pf c s key)"
    by (simp add: getUnique_def desc_by_parse_def sorted_array_sort)
next
  fix n
  show "filter (\<lambda>x. pf x = n) (getUnique pf c s key) =
        filter (\<lambda>x. pf x = n) (new_Set (map (get_field key) (getWheels c s)))"
    by (simp add: getUnique_def filter_array_sort)
next
  assume "\<forall>w \<in> set (getWheels c s). pf (get_field key w) = NaN"
  then have "\<forall>y \<in> set (new_Set (map (get_field key) (getWheels c s))). pf y = NaN"
    by (auto simp: set_new_Set)
  then show "getUnique pf c s key = new_Set (map (get_field key) (getWheels c s))"
    by (simp add: getUnique_def array_sort_all_NaN)
qed

theorem getUnique_values_order_witness:
  "parseFloat ''2.2'' = Fin (11 / 5) \<and> parseFloat ''2.1'' = Fin (21 / 10) \<and>
   parseFloat ''2.10'' = Fin (21 / 10) \<and>
   map (get_field Ktorch) (getWheels tie_catalog (demo_state ''2'' all_filters [])) =
     [''2.1'', ''2.2'', ''2.10'', ''2.1''] \<and>
   getUnique parseFloat tie_catalog (demo_state ''2'' all_filters []) Ktorch =
     [''2.2'', ''2.1'', ''2.10''] \<and>
   set [''2.2'', ''2.1'', ''2.10''] = set [''2.1'', ''2.2'', ''2.10'', ''2.1''] \<and>
   distinct [''2.2'', ''2.1'', ''2.10''] \<and>
   desc_by_parse parseFloat [''2.2'', ''2.1'', ''2.10''] \<and>
   filter (\<lambda>x. parseFloat x = Fin (21 / 10)) [''2.2'', ''2.1'', ''2.10''] = [''2.1'', ''2.10''] \<and>
   parseFloat ''linux_x86_64'' = NaN \<and> parseFloat ''win_amd64'' = NaN \<and>
   parseFloat ''linux_aarch64'' = NaN \<and>
   map (get_field Kos) (getWheels demo_catalog (demo_state ''all'' all_filters [])) =
     [''linux_x86_64'', ''win_amd64'', ''linux_aarch64''] \<and>
   getUnique parseFloat demo_catalog (demo_state ''all'' all_filters []) Kos =
     [''linux_x86_64'', ''win_amd64'', ''linux_aarch64'']"
proof -
  let ?s = "demo_state ''2'' all_filters []"
  let ?a = "demo_state ''all'' all_filters []"
  have vals: "parseFloat ''2.2'' = Fin (11 / 5)" "parseFloat ''2.1'' = Fin (21 / 10)"
    "parseFloat ''2.10'' = Fin (21 / 10)" "parseFloat ''linux_x86_64'' = NaN"
    "parseFloat ''win_amd64'' = NaN" "parseFloat ''linux_aarch64'' = NaN"
    by code_simp+
  have torch_in: "map (get_field Ktorch) (getWheels tie_catalog ?s) =
      [''2.1'', ''2.2'', ''2.10'', ''2.1'']"
    by code_simp
  have torch_first: "new_Set [''2.1'', ''2.2'', ''2.10'', ''2.1''] = [''2.1'', ''2.2'', ''2.10'']"
    by code_simp
  have torch_out: "getUnique parseFloat tie_catalog ?s Ktorch = [''2.2'', ''2.1'', ''2.10'']"
    by code_simp
  have os_in: "map (get_field Kos) (getWheels demo_catalog ?a) =
      [''linux_x86_64'', ''win_amd64'', ''linux_aarch64'']"
    by code_simp
  have os_first: "new_Set [''linux_x86_64'', ''win_amd64'', ''linux_aarch64''] =
      [''linux_x86_64'', ''win_amd64'', ''linux_aarch64'']"
    by code_simp
  have num: "\<forall>w \<in> set (getWheels tie_catalog ?s). parseFloat (get_field Ktorch w) \<noteq> NaN"
    by code_simp
  have nan: "\<forall>w \<in> set (getWheels demo_catalog ?a). parseFloat (get_field Kos w) = NaN"
    by code_simp
  note torch = getUnique_values_order [of parseFloat tie_catalog ?s Ktorch]
  have t1: "set [''2.2'', ''2.1'', ''2.10''] = set [''2.1'', ''2.2'', ''2.10'', ''2.1'']"
    by auto
  have t2: "distinct [''2.2'', ''2.1'', ''2.10'']"
    by simp
  have t3: "desc_by_parse parseFloat [''2.2'', ''2.1'', ''2.10'']"
    using torch num torch_out by simp
  have "filter (\<lambda>x. parseFloat x = Fin (21 / 10)) (getUnique parseFloat tie_catalog ?s Ktorch) =
      filter (\<lambda>x. parseFloat x = Fin (21 / 10))
        (new_Set (map (get_field Ktorch) (getWheels tie_catalog ?s)))"
    using torch num by blast
  then have t4: "filter (\<lambda>x. parseFloat x = Fin (21 / 10)) [''2.2'', ''2.1'', ''2.10''] =
      [''2.1'', ''2.10'']"
    by (simp add: torch_out torch_in torch_first vals)
  have os: "getUnique parseFloat demo_catalog ?a Kos =
      [''linux_x86_64'', ''win_amd64'', ''linux_aarch64'']"
    using getUnique_values_order [of parseFloat demo_catalog ?a Kos] nan os_in os_first by simp
  from vals torch_in torch_out t1 t2 t3 t4 os_in os show ?thesis by blast
qed

text \<open>
  The claim as stated fails for the platform facet: none of the three platform names
  parses to a number, the list comes back in catalog order, and it is not in descending
  order of the parsed values.
\<close>

theorem getUnique_platform_counterexample:
  "getUnique parseFloat demo_catalog (demo_state ''all'' all_filters []) Kos =
     [''linux_x86_64'', ''win_amd64'', ''linux_aarch64''] \<and>
   parseFloat ''linux_x86_64'' = NaN \<and> parseFloat ''win_amd64'' = NaN \<and>
   parseFloat ''linux_aarch64'' = NaN \<and>
   \<not> desc_by_parse parseFloat
       (getUnique parseFloat demo_catalog (demo_state ''all'' all_filters []) Kos)"
  by code_simp

section \<open>clearFilters\<close>

text \<open>
  The functions that read the three variables are not affected by an update of a page
  element.
\<close>

lemma getWheels_page_upd [simp]:
  "getWheels c (p\<lparr>search_value := a\<rparr>) = getWheels c p"
  "getWheels c (p\<lparr>cuda_select := e\<rparr>) = getWheels c p"
  "getWheels c (p\<lparr>python_select := e\<rparr>) = getWheels c p"
  "getWheels c (p\<lparr>pytorch_select := e\<rparr>) = getWheels c p"
  "getWheels c (p\<lparr>platform_select := e\<rparr>) = getWheels c p"
  "getWheels c (p\<lparr>count_text := n\<rparr>) = getWheels c p"
  "getWheels c (p\<lparr>wheel_list := l\<rparr>) = getWheels c p"
  "getWheels c (p\<lparr>list_background := a\<rparr>) = getWheels c p"
  "getWheels c (p\<lparr>filters := fs\<rparr>) = getWheels c p"
  "getWheels c (p\<lparr>searchQuery := a\<rparr>) = getWheels c p"
  by (simp_all add: getWheels_def)

lemma keep_wheel_page_upd [simp]:
  "keep_wheel (p\<lparr>search_value := a\<rparr>) = keep_wheel p"
  "keep_wheel (p\<lparr>cuda_select := e\<rparr>) = keep_wheel p"
  "keep_wheel (p\<lparr>python_select := e\<rparr>) = keep_wheel p"
  "keep_wheel (p\<lparr>pytorch_select := e\<rparr>) = keep_wheel p"
  "keep_wheel (p\<lparr>platform_select := e\<rparr>) = keep_wheel p"
  "keep_wheel (p\<lparr>count_text := n\<rparr>) = keep_wheel p"
  "keep_wheel (p\<lparr>wheel_list := l\<rparr>) = keep_wheel p"
  "keep_wheel (p\<lparr>list_background := a\<rparr>) = keep_wheel p"
  by (simp_all add: keep_wheel_def fun_eq_iff)

lemma filterWheels_page_upd [simp]:
  "filterWheels c (p\<lparr>search_value := a\<rparr>) = filterWheels c p"
  "filterWheels c (p\<lparr>cuda_select := e\<rparr>) = filterWheels c p"
  "filterWheels c (p\<lparr>python_select := e\<rparr>) = filterWheels c p"
  "filterWheels c (p\<lparr>pytorch_select := e\<rparr>) = filterWheels c p"
  "filterWheels c (p\<lparr>platform_select := e\<rparr>) = filterWheels c p"
  "filterWheels c (p\<lparr>count_text := n\<rparr>) = filterWheels c p"
  "filterWheels c (p\<lparr>wheel_list := l\<rparr>) = filterWheels c p"
  "filterWheels c (p\<lparr>list_background := a\<rparr>) = filterWheels c p"
  by (simp_all add: filterWheels_def)

lemma getUnique_page_upd [simp]:
  "getUnique pf c (p\<lparr>search_value := a\<rparr>) k = getUnique pf c p k"
  "getUnique pf c (p\<lparr>cuda_select := e\<rparr>) k = getUnique pf c p k"
  "getUnique pf c (p\<lparr>python_select := e\<rparr>) k = getUnique pf c p k"
  "getUnique pf c (p\<lparr>pytorch_select := e\<rparr>) k = getUnique pf c p k"
  "getUnique pf c (p\<lparr>platform_select := e\<rparr>) k = getUnique pf c p k"
  "getUnique pf c (p\<lparr>count_text := n\<rparr>) k = getUnique pf c p k"
  "getUnique pf c (p\<lparr>wheel_list := l\<rparr>) k = getUnique pf c p k"
  "getUnique pf c (p\<lparr>list_background := a\<rparr>) k = getUnique pf c p k"
  "getUnique pf c (p\<lparr>filters := fs\<rparr>) k = getUnique pf c p k"
  "getUnique pf c (p\<lparr>searchQuery := a\<rparr>) k = getUnique pf c p k"
  by (simp_all add: getUnique_def)

text \<open>\<open>render\<close> as one update: both branches write the same three elements.\<close>

lemma render_alt:
  "render c p =
     p\<lparr>count_text := length (filterWheels c p),
       wheel_list := (if filterWheels c p = [] then EmptyState
                      else Cards (map renderWheel (filterWheels c p))),
       list_background := (if filterWheels c p = [] then ''transparent'' else ''var(--black)'')\<rparr>"
  by (simp add: render_def Let_def)

lemma clearFilters_alt:
  "clearFilters pf c p = render c (populateFilters pf c (reset_selection p))"
  by (simp add: clearFilters_def reset_selection_def all_filters_def)

lemma clearFilters_state:
  "filters (clearFilters pf c p) = all_filters"
  "searchQuery (clearFilters pf c p) = []"
  "search_value (clearFilters pf c p) = []"
  "currentVersion (clearFilters pf c p) = currentVersion p"
  by (simp_all add: clearFilters_alt render_alt populateFilters_def reset_selection_def)

lemma reset_selection_fix:
  assumes "filters q = all_filters" and "searchQuery q = []" and "search_value q = []"
  shows "reset_selection q = q"
  using assms by (cases q) (simp add: reset_selection_def)

lemma populate_render_populate:
  "populateFilters pf c (render c (populateFilters pf c q)) = render c (populateFilters pf c q)"
  by (simp add: render_alt populateFilters_def)

lemma render_render: "render c (render c q) = render c q"
  by (simp add: render_alt)

text \<open>
  Claim C6. \<open>clearFilters\<close> sets the four facet filters to \<open>all\<close> and the search text (and
  the search box) to the empty string and leaves the version scope as it was; afterwards
  the visible entries are all the entries of the current scope, and the count shown is
  their number.
\<close>

theorem clearFilters_resets:
  "f_cuda (filters (clearFilters pf c p)) = ''all'' \<and>
   f_python (filters (clearFilters pf c p)) = ''all'' \<and>
   f_pytorch (filters (clearFilters pf c p)) = ''all'' \<and>
   f_platform (filters (clearFilters pf c p)) = ''all'' \<and>
   searchQuery (clearFilters pf c p) = [] \<and>
   search_value (clearFilters pf c p) = [] \<and>
   currentVersion (clearFilters pf c p) = currentVersion p \<and>
   filterWheels c (clearFilters pf c p) = getWheels c p \<and>
   length (filterWheels c (clearFilters pf c p)) = length (getWheels c (clearFilters pf c p)) \<and>
   count_text (clearFilters pf c p) = length (getWheels c p)"
proof -
  let ?q = "clearFilters pf c p"
  have vars: "filters ?q = all_filters" "searchQuery ?q = []" "search_value ?q = []"
    "currentVersion ?q = currentVersion p"
    by (simp_all add: clearFilters_state)
  have scope: "getWheels c ?q = getWheels c p"
    using vars(4) by (simp add: getWheels_def)
  have "filterWheels c ?q = getWheels c ?q"
    using vars(1,2) by (rule filterWheels_unfiltered)
  with scope have visible: "filterWheels c ?q = getWheels c p" by simp
  have "count_text ?q = length (filterWheels c (reset_selection p))"
    by (simp add: clearFilters_alt render_alt populateFilters_def)
  also have "filterWheels c (reset_selection p) = getWheels c (reset_selection p)"
    by (rule filterWheels_unfiltered) (simp_all add: reset_selection_def)
  also have "getWheels c (reset_selection p) = getWheels c p"
    by (simp add: reset_selection_def)
  finally have count: "count_text ?q = length (getWheels c p)" .
  from vars scope visible count show ?thesis
    by (simp add: all_filters_def)
qed

theorem clearFilters_resets_witness:
  "filterWheels demo_catalog demo_page = [] \<and>
   currentVersion (clearFilters parseFloat demo_catalog demo_page) = ''2'' \<and>
   filters (clearFilters parseFloat demo_catalog demo_page) = all_filters \<and>
   searchQuery (clearFilters parseFloat demo_catalog demo_page) = [] \<and>
   filterWheels demo_catalog (clearFilters parseFloat demo_catalog demo_page) = [wheel_a, wheel_b] \<and>
   count_text (clearFilters parseFloat demo_catalog demo_page) = 2"
proof -
  have before: "filterWheels demo_catalog demo_page = []" by code_simp
  have scope: "currentVersion demo_page = ''2''" by (simp add: demo_page_def)
  have full: "getWheels demo_catalog demo_page = [wheel_a, wheel_b]"
    by (simp add: getWheels_def demo_page_def demo_catalog_def)
  have "filters (clearFilters parseFloat demo_catalog demo_page) = all_filters"
    using clearFilters_resets [of parseFloat demo_catalog demo_page]
    by (cases "filters (clearFilters parseFloat demo_catalog demo_page)")
      (simp add: all_filters_def)
  with clearFilters_resets [of parseFloat demo_catalog demo_page] before scope full
  show ?thesis by simp
qed

text \<open>
  Claim C7. \<open>clearFilters\<close> is idempotent: a second call in a row leaves the whole page as
  the first call left it, the three variables, the visible entries and the values offered
  for each facet included.
\<close>

theorem clearFilters_idempotent:
  "clearFilters pf c (clearFilters pf c p) = clearFilters pf c p \<and>
   filterWheels c (clearFilters pf c (clearFilters pf c p)) = filterWheels c (clearFilters pf c p) \<and>
   getUnique pf c (clearFilters pf c (clearFilters pf c p)) key =
     getUnique pf c (clearFilters pf c p) key"
proof -
  let ?q = "clearFilters pf c p"
  have "reset_selection ?q = ?q"
    by (rule reset_selection_fix) (simp_all add: clearFilters_state)
  then have "clearFilters pf c ?q = render c (populateFilters pf c ?q)"
    by (simp add: clearFilters_alt [of pf c ?q])
  also have "populateFilters pf c ?q = ?q"
    by (simp add: clearFilters_alt populate_render_populate)
  also have "render c ?q = ?q"
    by (simp add: clearFilters_alt render_render)
  finally have "clearFilters pf c ?q = ?q" .
  then show ?thesis by simp
qed

theorem clearFilters_idempotent_witness:
  "clearFilters parseFloat demo_catalog (clearFilters parseFloat demo_catalog demo_page) =
     clearFilters parseFloat demo_catalog demo_page \<and>
   sel_options (python_select (clearFilters parseFloat demo_catalog demo_page)) =
     [(''all'', ''All''), (''3.9'', ''3.9''), (''3.10'', ''3.10'')]"
proof -
  have "sel_options (python_select (clearFilters parseFloat demo_catalog demo_page)) =
     [(''all'', ''All''), (''3.9'', ''3.9''), (''3.10'', ''3.10'')]"
    by code_simp
  with clearFilters_idempotent [of parseFloat demo_catalog demo_page Kpy] show ?thesis by simp
qed

section \<open>copyCmd\<close>

lemma two_copies_eq:
  assumes "t1 \<le> t2" and "t2 < t1 + 1500"
  shows "two_copies t1 t2 cmd1 cmd2 =
         \<lparr>clipboard = cmd2, btn = \<lparr>copied = True, icon = CheckIcon\<rparr>,
          timers = [t1 + 1500, t2 + 1500], revert_log = []\<rparr>"
  using assms
  by (simp add: two_copies_def copy_at_def copyCmd_def run_timers_def idle_ui_def)

text \<open>
  Claim C9, as amended. When a second copy on the same button settles less than 1500
  milliseconds after the first, the button carries the mark \<open>copied\<close> once, and each call
  has registered a timer of its own. The mark stays until the timer of the first call
  fires, 1500 milliseconds after the first call, and is gone from then on, while the timer
  of the second call is still pending; that one fires 1500 milliseconds after the second
  call, so the revert runs twice.
\<close>

theorem copy_twice_stacks_reverts:
  assumes "t1 \<le> t2" and "t2 < t1 + 1500"
  shows "(\<forall>t. t2 \<le> t \<and> t < t1 + 1500 \<longrightarrow>
            copied (btn (run_timers t (two_copies t1 t2 cmd1 cmd2))) \<and>
            revert_log (run_timers t (two_copies t1 t2 cmd1 cmd2)) = []) \<and>
         (\<forall>t. t1 + 1500 \<le> t \<and> t < t2 + 1500 \<longrightarrow>
            \<not> copied (btn (run_timers t (two_copies t1 t2 cmd1 cmd2))) \<and>
            revert_log (run_timers t (two_copies t1 t2 cmd1 cmd2)) = [t1 + 1500] \<and>
            timers (run_timers t (two_copies t1 t2 cmd1 cmd2)) = [t2 + 1500]) \<and>
         (\<forall>t. t2 + 1500 \<le> t \<longrightarrow>
            \<not> copied (btn (run_timers t (two_copies t1 t2 cmd1 cmd2))) \<and>
            revert_log (run_timers t (two_copies t1 t2 cmd1 cmd2)) = [t1 + 1500, t2 + 1500] \<and>
            timers (run_timers t (two_copies t1 t2 cmd1 cmd2)) = [])"
  using assms
  by (simp add: two_copies_eq run_timers_def revert_def)

theorem copy_twice_stacks_reverts_witness:
  "(0::nat) \<le> 1000 \<and> (1000::nat) < 0 + 1500 \<and>
   copied (btn (run_timers 1200 (two_copies 0 1000 ''pip install a'' ''uv pip install a''))) \<and>
   \<not> copied (btn (run_timers 1500 (two_copies 0 1000 ''pip install a'' ''uv pip install a''))) \<and>
   timers (run_timers 1500 (two_copies 0 1000 ''pip install a'' ''uv pip install a'')) = [2500] \<and>
   revert_log (run_timers 2500 (two_copies 0 1000 ''pip install a'' ''uv pip install a'')) =
     [1500, 2500]"
proof -
  have h1: "(0::nat) \<le> 1000" and h2: "(1000::nat) < 0 + 1500" by simp_all
  from copy_twice_stacks_reverts [OF h1 h2, of "''pip install a''" "''uv pip install a''"]
  have a: "copied (btn (run_timers 1200 (two_copies 0 1000 ''pip install a'' ''uv pip install a'')))"
    and b: "\<not> copied (btn (run_timers 1500 (two_copies 0 1000 ''pip install a'' ''uv pip install a'')))"
    and c: "timers (run_timers 1500 (two_copies 0 1000 ''pip install a'' ''uv pip install a'')) =
        [1000 + 1500]"
    and d: "revert_log (run_timers 2500 (two_copies 0 1000 ''pip install a'' ''uv pip install a'')) =
        [0 + 1500, 1000 + 1500]"
    by simp_all
  from h1 h2 a b c d show ?thesis by simp
qed

text \<open>
  The claim as stated fails: with copies at 0 and 1000 the mark is already gone at 2000,
  which is before 1500 milliseconds after the second copy, and by 2500 the revert has run
  twice, at 1500 and at 2500.
\<close>

theorem copy_twice_counterexample:
  "\<not> copied (btn (run_timers 2000 (two_copies 0 1000 ''pip install a'' ''pip install a''))) \<and>
   revert_log (run_timers 2500 (two_copies 0 1000 ''pip install a'' ''pip install a'')) =
     [1500, 2500]"
  by code_simp

end
